theory Spec2Isabelle
  imports Main
begin

section \<open>The IR: values, instructions, basic blocks, functions\<close>

text \<open>
  The file under study is \<^verbatim>\<open>lib/SIL/SILGen/SILGen.cpp\<close>: the per-function lowering
  context \<^verbatim>\<open>SILGenFunction\<close>, the module orchestrator \<^verbatim>\<open>SILGenModule\<close>, the entry
  point \<^verbatim>\<open>SILModule::constructSIL\<close> and the per-type coordinator \<^verbatim>\<open>SILGenType\<close>.

  A pointer to an AST node or to an IR object is an identity; it is modelled by a natural
  number (AST nodes) or by a position (IR instructions and blocks). A \<^verbatim>\<open>Value\<close> of the IR
  is the instruction that computes it, so a value is the position of that instruction:
  the index of its block in the function and its index in the block. An instruction the
  builder created while it had no insertion point is in no block.
\<close>

datatype Value = InstRef nat nat | Detached

datatype Instruction =
    TupleInst "Value list"
  | CleanupCode nat
  | OtherInst nat
  | ReturnInst Value
  | UnreachableInst
  | BranchInst nat

fun isTerminator :: "Instruction \<Rightarrow> bool" where
  "isTerminator (ReturnInst v) = True"
| "isTerminator UnreachableInst = True"
| "isTerminator (BranchInst b) = True"
| "isTerminator (TupleInst vs) = False"
| "isTerminator (CleanupCode c) = False"
| "isTerminator (OtherInst n) = False"

type_synonym BasicBlock = "Instruction list"

definition terminators :: "BasicBlock \<Rightarrow> nat" where
  "terminators bb = length (filter isTerminator bb)"

definition isOpen :: "BasicBlock \<Rightarrow> bool" where
  "isOpen bb = (terminators bb = 0)"

datatype SILType = SILType nat

record Function =
  fnType :: SILType
  blocks :: "BasicBlock list"

definition openBlocks :: "Function \<Rightarrow> BasicBlock list" where
  "openBlocks f = filter isOpen (blocks f)"

text \<open>
  Modelled from the spec: the constructor of \<^verbatim>\<open>Function\<close> is not in this file. The spec's
  data model says an IR Function is "a type signature plus an ordered sequence of owned
  Basic Blocks", "created empty (shell) before its body is lowered".
\<close>

definition Function_ctor :: "SILType \<Rightarrow> Function" where
  "Function_ctor ty = \<lparr>fnType = ty, blocks = []\<rparr>"

text \<open>
  Modelled from the spec: the constructor of \<^verbatim>\<open>BasicBlock\<close> is not in this file. A new block
  is empty and is owned by the function it was created for, as the last of its blocks;
  the result is the function and the index of the new block.
\<close>

definition BasicBlock_ctor :: "Function \<Rightarrow> Function \<times> nat" where
  "BasicBlock_ctor f = (f\<lparr>blocks := blocks f @ [[]]\<rparr>, length (blocks f))"

section \<open>The function lowering context\<close>

text \<open>
  \<^verbatim>\<open>SILGenFunction\<close> has the members \<^verbatim>\<open>SGM\<close> (a reference to the module context),
  \<^verbatim>\<open>F\<close> (the function being built), \<^verbatim>\<open>B\<close> (the builder), \<^verbatim>\<open>Cleanups\<close>,
  \<^verbatim>\<open>hasVoidReturn\<close> and \<^verbatim>\<open>epilogBB\<close>. The context is the only owner of \<^verbatim>\<open>F\<close>
  while it lives, so the record holds the function itself. The builder is its insertion
  point: the index of the block instructions are appended to, or \<open>None\<close>. The cleanup
  stack is the list of the cleanups pushed so far, oldest first. A fault is an assertion
  of the source that failed: the pass aborts there.
\<close>

datatype fault =
    AlreadyGenerated
  | EpilogNotTerminated
  | VerifyFailed
  | DestructorInNonClass

record SILGenFunction =
  F :: Function
  B :: "nat option"
  Cleanups :: "nat list"
  hasVoidReturn :: bool
  epilogBB :: "nat option"

subsection \<open>The builder and the cleanup stack\<close>

text \<open>
  Modelled from the spec: \<^verbatim>\<open>SILBuilder\<close> is not in this file. The spec's insertion point is
  "a reference to the current open block to append instructions to, or invalid";
  "instructions are never appended when the insertion point is invalid; emitting a
  terminator always invalidates it".
\<close>

definition hasValidInsertionPoint :: "SILGenFunction \<Rightarrow> bool" where
  "hasValidInsertionPoint sgf = (B sgf \<noteq> None)"

definition insertImpl :: "Instruction \<Rightarrow> SILGenFunction \<Rightarrow> SILGenFunction" where
  "insertImpl inst sgf =
     (case B sgf of
        None \<Rightarrow> sgf
      | Some i \<Rightarrow>
          sgf\<lparr>F := (F sgf)\<lparr>blocks := (blocks (F sgf))[i := blocks (F sgf) ! i @ [inst]]\<rparr>\<rparr>)"

definition insertTerminator :: "Instruction \<Rightarrow> SILGenFunction \<Rightarrow> SILGenFunction" where
  "insertTerminator inst sgf = (insertImpl inst sgf)\<lparr>B := None\<rparr>"

definition createEmptyTuple :: "SILGenFunction \<Rightarrow> Value \<times> SILGenFunction" where
  "createEmptyTuple sgf =
     (case B sgf of
        None \<Rightarrow> (Detached, sgf)
      | Some i \<Rightarrow> (InstRef i (length (blocks (F sgf) ! i)), insertImpl (TupleInst []) sgf))"

definition createReturn :: "Value \<Rightarrow> SILGenFunction \<Rightarrow> SILGenFunction" where
  "createReturn v sgf = insertTerminator (ReturnInst v) sgf"

definition createUnreachable :: "SILGenFunction \<Rightarrow> SILGenFunction" where
  "createUnreachable sgf = insertTerminator UnreachableInst sgf"

text \<open>
  Modelled from the spec: the cleanup manager is not in this file. \<open>push\<close> "adds one scope-exit
  action"; \<open>emitAll\<close> "emits every currently-stacked action's cleanup code in reverse push
  order, against the current insertion point"; the epilogue calls "\<open>emitAll\<close> followed by a
  return-with-value terminator using that value". The code of the cleanup \<open>c\<close> is the
  instruction \<open>CleanupCode c\<close>.
\<close>

definition pushCleanup :: "nat \<Rightarrow> SILGenFunction \<Rightarrow> SILGenFunction" where
  "pushCleanup c sgf = sgf\<lparr>Cleanups := Cleanups sgf @ [c]\<rparr>"

definition emitAll :: "SILGenFunction \<Rightarrow> SILGenFunction" where
  "emitAll sgf = fold (\<lambda>c. insertImpl (CleanupCode c)) (rev (Cleanups sgf)) sgf"

definition emitReturnAndCleanups :: "Value \<Rightarrow> SILGenFunction \<Rightarrow> SILGenFunction" where
  "emitReturnAndCleanups v sgf = createReturn v (emitAll sgf)"

subsection \<open>Construction and destruction\<close>

text \<open>
  \<^verbatim>\<open>SILGenFunction::SILGenFunction(SGM, F, hasVoidReturn)\<close> creates a block in \<^verbatim>\<open>F\<close> and
  a builder at that block, an empty cleanup stack, and no epilog block.
\<close>

definition SILGenFunction_ctor :: "Function \<Rightarrow> bool \<Rightarrow> SILGenFunction" where
  "SILGenFunction_ctor f hvr =
     (case BasicBlock_ctor f of
        (f', bb) \<Rightarrow>
          \<lparr>F = f', B = Some bb, Cleanups = [], hasVoidReturn = hvr, epilogBB = None\<rparr>)"

text \<open>
  \<^verbatim>\<open>SILGenFunction::~SILGenFunction()\<close>, the epilogue. What is left of the context once it
  is destroyed is the function it built.
\<close>

definition SILGenFunction_dtor :: "SILGenFunction \<Rightarrow> fault + Function" where
  "SILGenFunction_dtor sgf =
     (if \<not> hasValidInsertionPoint sgf then Inr (F sgf)
      else if hasVoidReturn sgf then
        (if epilogBB sgf \<noteq> None then Inl EpilogNotTerminated
         else (case createEmptyTuple sgf of
                 (emptyTuple, sgf') \<Rightarrow> Inr (F (emitReturnAndCleanups emptyTuple sgf'))))
      else Inr (F (createUnreachable sgf)))"

text \<open>
  The source uses a context as a temporary: \<^verbatim>\<open>SILGenFunction(*this, *f, flag).emitX(node)\<close>
  constructs it, runs one body emitter on it and destroys it at the end of the statement.
  The body emitters are not in this file: \<open>body\<close> stands for the one that is run.
\<close>

definition SILGenFunction_scope ::
  "bool \<Rightarrow> (SILGenFunction \<Rightarrow> SILGenFunction) \<Rightarrow> Function \<Rightarrow> fault + Function" where
  "SILGenFunction_scope hvr body f = SILGenFunction_dtor (body (SILGenFunction_ctor f hvr))"


section \<open>The AST as the lowering reads it\<close>

text \<open>
  The AST is an input. Of each node the model keeps its identity and what this file
  reads of it: whether a body is there, the result type of a function expression, and
  whether the type a constructor builds has reference semantics
  (\<^verbatim>\<open>decl->getImplicitThisDecl()->getType()->hasReferenceSemantics()\<close>). Types are
  canonical, so \<^verbatim>\<open>isEqual\<close> is equality.
\<close>

datatype CanType =
    TupleType "CanType list"
  | NominalType nat
  | FunctionType CanType CanType

definition TheEmptyTupleType :: CanType where
  "TheEmptyTupleType = TupleType []"

definition isVoidableType :: "CanType \<Rightarrow> bool" where
  "isVoidableType ty = (ty = TheEmptyTupleType)"

record FuncExpr =
  feId :: nat
  feBody :: "nat option"
  feResultType :: CanType

record FuncDecl =
  fdId :: nat
  fdBody :: FuncExpr

record ConstructorDecl =
  cdId :: nat
  cdBody :: "nat option"
  cdThisHasReferenceSemantics :: bool

datatype NominalTypeDecl = ClassDecl nat | StructDecl nat | OneOfDecl nat | ProtocolDecl nat

datatype Decl = FuncDeclNode FuncDecl | PatternBindingDeclNode nat | OtherDeclNode nat

datatype TUKind = Library | Main | Repl

record ASTContext =
  topLevelFnType :: SILType

record TranslationUnit =
  tuKind :: TUKind
  tuDecls :: "Decl list"
  tuASTContext :: ASTContext

section \<open>Emission keys and the output module\<close>

text \<open>
  \<^verbatim>\<open>SILConstant::Loc\<close> is a declaration or a capturing expression. The source names the
  kinds \<^verbatim>\<open>SILConstant::Initializer\<close> and \<^verbatim>\<open>SILConstant::Destructor\<close>; the spec's roles
  are Plain, Initializer, Destructor and Allocator.
\<close>

datatype Loc = ValueDeclLoc nat | CapturingExprLoc nat

datatype Kind = Plain | Initializer | Destructor | Allocator

datatype SILConstant = SILConstant Loc Kind

text \<open>
  Modelled from the spec: the one-argument constructor of \<^verbatim>\<open>SILConstant\<close>, which the
  source calls as \<^verbatim>\<open>SILConstant constant(decl)\<close>, is not in this file. The spec gives the key
  made from a function or a closure and the key of a value-semantics constructor the
  role Plain, and the first key of a reference-semantics constructor the role Allocator.
\<close>

definition SILConstant_ofLoc :: "Loc \<Rightarrow> SILConstant" where
  "SILConstant_ofLoc l = SILConstant l Plain"

definition SILConstant_ofConstructor :: "ConstructorDecl \<Rightarrow> SILConstant" where
  "SILConstant_ofConstructor d =
     SILConstant (ValueDeclLoc (cdId d))
       (if cdThisHasReferenceSemantics d then Allocator else Plain)"

record SILModule =
  toplevel :: "Function option"
  "functions" :: "SILConstant \<rightharpoonup> Function"

text \<open>
  Modelled from the spec: the constructor of \<^verbatim>\<open>SILModule\<close> and \<^verbatim>\<open>hasFunction\<close> are not
  in this file. The module is built with the implicit top-level function when asked for one,
  and with an empty function table; \<^verbatim>\<open>hasFunction\<close> tells whether the key is "already
  present in the Function Table".
\<close>

definition SILModule_ctor :: "ASTContext \<Rightarrow> bool \<Rightarrow> SILModule" where
  "SILModule_ctor ctx hasTopLevel =
     \<lparr>toplevel = (if hasTopLevel then Some (Function_ctor (topLevelFnType ctx)) else None),
      functions = Map.empty\<rparr>"

definition hasFunction :: "SILModule \<Rightarrow> SILConstant \<Rightarrow> bool" where
  "hasFunction m constant = (functions m constant \<noteq> None)"

section \<open>The module orchestrator\<close>

text \<open>
  What \<^verbatim>\<open>SILGenModule\<close> calls and this file does not hold is a parameter of the model: the
  type lowering (\<^verbatim>\<open>Types.getConstantType\<close>), the verifier (\<^verbatim>\<open>F->verify()\<close>, a pass or
  a failure), the body emitters of \<^verbatim>\<open>SILGenFunction\<close>, and the visitors of the
  declaration kinds this file does not visit. A body emitter works on the context it is
  called on. The dumps of the verbose mode are output only and are left out.
\<close>

record SILGenModule =
  M :: SILModule
  TopLevelSGF :: "SILGenFunction option"
  Verbose :: bool

record Externals =
  getConstantType :: "SILConstant \<Rightarrow> SILType"
  verify :: "Function \<Rightarrow> bool"
  SGF_emitFunction :: "FuncExpr \<Rightarrow> SILGenFunction \<Rightarrow> SILGenFunction"
  SGF_emitClassConstructorAllocator :: "ConstructorDecl \<Rightarrow> SILGenFunction \<Rightarrow> SILGenFunction"
  SGF_emitClassConstructorInitializer :: "ConstructorDecl \<Rightarrow> SILGenFunction \<Rightarrow> SILGenFunction"
  SGF_emitValueConstructor :: "ConstructorDecl \<Rightarrow> SILGenFunction \<Rightarrow> SILGenFunction"
  SGF_emitClosure :: "nat \<Rightarrow> SILGenFunction \<Rightarrow> SILGenFunction"
  SGF_emitDestructor :: "nat \<Rightarrow> nat option \<Rightarrow> SILGenFunction \<Rightarrow> SILGenFunction"
  visitOtherDecl :: "nat \<Rightarrow> SILGenModule \<Rightarrow> fault + SILGenModule"

definition andThen :: "fault + 'a \<Rightarrow> ('a \<Rightarrow> fault + 'b) \<Rightarrow> fault + 'b" where
  "andThen r k = (case r of Inl e \<Rightarrow> Inl e | Inr x \<Rightarrow> k x)"

text \<open>
  \<^verbatim>\<open>SILGenModule::SILGenModule(M, verbose)\<close>. The top-level context works on the module's
  top-level function; the model hands the function to the context here and
  \<open>SILGenModule_dtor\<close> puts it back.
\<close>

definition SILGenModule_ctor :: "SILModule \<Rightarrow> bool \<Rightarrow> SILGenModule" where
  "SILGenModule_ctor m verbose =
     \<lparr>M = m,
      TopLevelSGF = (case toplevel m of
                       None \<Rightarrow> None
                     | Some f \<Rightarrow> Some (SILGenFunction_ctor f True)),
      Verbose = verbose\<rparr>"

text \<open>\<^verbatim>\<open>SILGenModule::~SILGenModule()\<close>: \<^verbatim>\<open>delete TopLevelSGF\<close> runs the epilogue.\<close>

definition SILGenModule_dtor :: "SILGenModule \<Rightarrow> fault + SILModule" where
  "SILGenModule_dtor sgm =
     (case TopLevelSGF sgm of
        None \<Rightarrow> Inr (M sgm)
      | Some sgf \<Rightarrow>
          andThen (SILGenFunction_dtor sgf) (\<lambda>f. Inr ((M sgm)\<lparr>toplevel := Some f\<rparr>)))"

definition preEmitFunction :: "Externals \<Rightarrow> SILGenModule \<Rightarrow> SILConstant \<Rightarrow> fault + Function" where
  "preEmitFunction ext sgm constant =
     (if hasFunction (M sgm) constant then Inl AlreadyGenerated
      else Inr (Function_ctor (getConstantType ext constant)))"

definition postEmitFunction ::
  "Externals \<Rightarrow> SILConstant \<Rightarrow> Function \<Rightarrow> SILGenModule \<Rightarrow> fault + SILGenModule" where
  "postEmitFunction ext constant f sgm =
     (if \<not> verify ext f then Inl VerifyFailed
      else Inr (sgm\<lparr>M := (M sgm)\<lparr>functions := (functions (M sgm))(constant \<mapsto> f)\<rparr>\<rparr>))"

text \<open>
  The emission policies return the function they emitted, or nothing for a prototype
  (\<^verbatim>\<open>nullptr\<close>), and the module context after the emission.
\<close>

definition emitFunction ::
  "Externals \<Rightarrow> Loc \<Rightarrow> FuncExpr \<Rightarrow> SILGenModule \<Rightarrow> fault + (Function option \<times> SILGenModule)" where
  "emitFunction ext decl fe sgm =
     (if feBody fe = None then Inr (None, sgm)
      else
        andThen (preEmitFunction ext sgm (SILConstant_ofLoc decl)) (\<lambda>f.
        andThen (SILGenFunction_scope (isVoidableType (feResultType fe))
                   (SGF_emitFunction ext fe) f) (\<lambda>f'.
        andThen (postEmitFunction ext (SILConstant_ofLoc decl) f' sgm) (\<lambda>sgm'.
        Inr (Some f', sgm')))))"

definition visitFuncDecl :: "Externals \<Rightarrow> FuncDecl \<Rightarrow> SILGenModule \<Rightarrow> fault + SILGenModule" where
  "visitFuncDecl ext fd sgm =
     andThen (emitFunction ext (ValueDeclLoc (fdId fd)) (fdBody fd) sgm) (\<lambda>(f, sgm'). Inr sgm')"

definition emitConstructor ::
  "Externals \<Rightarrow> ConstructorDecl \<Rightarrow> SILGenModule \<Rightarrow> fault + (Function option \<times> SILGenModule)" where
  "emitConstructor ext decl sgm =
     (if cdBody decl = None then Inr (None, sgm)
      else
        andThen (preEmitFunction ext sgm (SILConstant_ofConstructor decl)) (\<lambda>f.
        if cdThisHasReferenceSemantics decl then
          andThen (SILGenFunction_scope True (SGF_emitClassConstructorAllocator ext decl) f) (\<lambda>f'.
          andThen (postEmitFunction ext (SILConstant_ofConstructor decl) f' sgm) (\<lambda>sgm1.
          andThen (preEmitFunction ext sgm1 (SILConstant (ValueDeclLoc (cdId decl)) Initializer))
            (\<lambda>initF.
          andThen (SILGenFunction_scope True (SGF_emitClassConstructorInitializer ext decl) initF)
            (\<lambda>initF'.
          andThen (postEmitFunction ext (SILConstant (ValueDeclLoc (cdId decl)) Initializer)
                     initF' sgm1) (\<lambda>sgm2.
          Inr (Some f', sgm2))))))
        else
          andThen (SILGenFunction_scope True (SGF_emitValueConstructor ext decl) f) (\<lambda>f'.
          andThen (postEmitFunction ext (SILConstant_ofConstructor decl) f' sgm) (\<lambda>sgm1.
          Inr (Some f', sgm1)))))"

definition emitClosure ::
  "Externals \<Rightarrow> nat \<Rightarrow> SILGenModule \<Rightarrow> fault + (Function option \<times> SILGenModule)" where
  "emitClosure ext ce sgm =
     andThen (preEmitFunction ext sgm (SILConstant_ofLoc (CapturingExprLoc ce))) (\<lambda>f.
     andThen (SILGenFunction_scope False (SGF_emitClosure ext ce) f) (\<lambda>f'.
     andThen (postEmitFunction ext (SILConstant_ofLoc (CapturingExprLoc ce)) f' sgm) (\<lambda>sgm'.
     Inr (Some f', sgm'))))"

definition emitDestructor ::
  "Externals \<Rightarrow> nat \<Rightarrow> nat option \<Rightarrow> SILGenModule \<Rightarrow> fault + (Function option \<times> SILGenModule)" where
  "emitDestructor ext cd dd sgm =
     andThen (preEmitFunction ext sgm (SILConstant (ValueDeclLoc cd) Destructor)) (\<lambda>f.
     andThen (SILGenFunction_scope True (SGF_emitDestructor ext cd dd) f) (\<lambda>f'.
     andThen (postEmitFunction ext (SILConstant (ValueDeclLoc cd) Destructor) f' sgm) (\<lambda>sgm'.
     Inr (Some f', sgm'))))"

text \<open>\<^verbatim>\<open>SILGenModule::visitPatternBindingDecl\<close> has an empty body.\<close>

definition visitPatternBindingDecl :: "nat \<Rightarrow> SILGenModule \<Rightarrow> fault + SILGenModule" where
  "visitPatternBindingDecl pd sgm = Inr sgm"


text \<open>
  \<^verbatim>\<open>sgm.visit(D)\<close> dispatches on the kind of the declaration. Two visitors are in this
  file; the others are the parameter \<open>visitOtherDecl\<close>.
\<close>

definition visit :: "Externals \<Rightarrow> Decl \<Rightarrow> SILGenModule \<Rightarrow> fault + SILGenModule" where
  "visit ext d sgm =
     (case d of
        FuncDeclNode fd \<Rightarrow> visitFuncDecl ext fd sgm
      | PatternBindingDeclNode pd \<Rightarrow> visitPatternBindingDecl pd sgm
      | OtherDeclNode n \<Rightarrow> visitOtherDecl ext n sgm)"

fun visitAll :: "Externals \<Rightarrow> Decl list \<Rightarrow> SILGenModule \<Rightarrow> fault + SILGenModule" where
  "visitAll ext [] sgm = Inr sgm"
| "visitAll ext (d # ds) sgm = andThen (visit ext d sgm) (visitAll ext ds)"

section \<open>The entry point\<close>

text \<open>
  \<^verbatim>\<open>SILModule::constructSIL(tu, verbose)\<close>. The local \<^verbatim>\<open>sgm\<close> is destroyed when the
  function returns, which runs the epilogue of the top-level context.
\<close>

definition hasTopLevelFor :: "TUKind \<Rightarrow> bool" where
  "hasTopLevelFor k = (case k of Library \<Rightarrow> False | Main \<Rightarrow> True | Repl \<Rightarrow> True)"

definition constructSIL :: "Externals \<Rightarrow> TranslationUnit \<Rightarrow> bool \<Rightarrow> fault + SILModule" where
  "constructSIL ext tu verbose =
     (let hasTopLevel = hasTopLevelFor (tuKind tu);
          m = SILModule_ctor (tuASTContext tu) hasTopLevel;
          sgm = SILGenModule_ctor m verbose
      in andThen (visitAll ext (tuDecls tu) sgm) SILGenModule_dtor)"

section \<open>The type lowering coordinator\<close>

text \<open>
  \<^verbatim>\<open>SILGenType\<close> holds the type and the explicit destructor its members registered, if
  any. \<^verbatim>\<open>dyn_cast<ClassDecl>(theType)\<close> succeeds on a class declaration only.
\<close>

record SILGenType =
  theType :: NominalTypeDecl
  explicitDestructor :: "nat option"

definition SILGenType_ctor :: "NominalTypeDecl \<Rightarrow> SILGenType" where
  "SILGenType_ctor ty = \<lparr>theType = ty, explicitDestructor = None\<rparr>"

definition SILGenType_dtor :: "Externals \<Rightarrow> SILGenType \<Rightarrow> SILGenModule \<Rightarrow> fault + SILGenModule" where
  "SILGenType_dtor ext sgt sgm =
     (case theType sgt of
        ClassDecl theClass \<Rightarrow>
          andThen (emitDestructor ext theClass (explicitDestructor sgt) sgm)
            (\<lambda>(f, sgm'). Inr sgm')
      | _ \<Rightarrow>
          if explicitDestructor sgt \<noteq> None then Inl DestructorInNonClass else Inr sgm)"

section \<open>Notions the properties are stated with\<close>

text \<open>
  The insertion point of a context is well formed when it is a block of the function.
  \<open>onlyCurrentOpen\<close> says that no block other than the current one is open: what the
  body emitters leave behind when every block they leave has been terminated.
  \<open>instAt\<close> reads the instruction a value stands for.
\<close>

definition wfInsertionPoint :: "SILGenFunction \<Rightarrow> bool" where
  "wfInsertionPoint sgf =
     (case B sgf of None \<Rightarrow> True | Some i \<Rightarrow> i < length (blocks (F sgf)))"

definition onlyCurrentOpen :: "SILGenFunction \<Rightarrow> bool" where
  "onlyCurrentOpen sgf =
     list_all (\<lambda>j. isOpen (blocks (F sgf) ! j) \<longrightarrow> B sgf = Some j)
       [0..<length (blocks (F sgf))]"

definition instAt :: "Function \<Rightarrow> Value \<Rightarrow> Instruction option" where
  "instAt f v =
     (case v of
        Detached \<Rightarrow> None
      | InstRef b n \<Rightarrow>
          if b < length (blocks f) \<and> n < length (blocks f ! b)
          then Some (blocks f ! b ! n) else None)"

text \<open>
  A visitor keeps the top level when it neither creates nor drops the module's top-level
  function and its context, and leaves the context's \<^verbatim>\<open>hasVoidReturn\<close> as it was.
\<close>

definition keepsTopLevel :: "SILGenModule \<Rightarrow> SILGenModule \<Rightarrow> bool" where
  "keepsTopLevel s s' =
     ((toplevel (M s') = None) = (toplevel (M s) = None) \<and>
      (case TopLevelSGF s of
         None \<Rightarrow> TopLevelSGF s' = None
       | Some c \<Rightarrow>
           (case TopLevelSGF s' of
              None \<Rightarrow> False
            | Some c' \<Rightarrow> hasVoidReturn c' = hasVoidReturn c)))"

section \<open>Example inputs\<close>

definition sgfEx :: SILGenFunction where
  "sgfEx = \<lparr>F = \<lparr>fnType = SILType 0, blocks = [[OtherInst 1, BranchInst 1], [OtherInst 2]]\<rparr>,
            B = Some 1, Cleanups = [7, 8], hasVoidReturn = True, epilogBB = None\<rparr>"

definition extEx :: Externals where
  "extEx =
     \<lparr>getConstantType = (\<lambda>k. SILType 0),
      verify = (\<lambda>f. True),
      SGF_emitFunction = (\<lambda>fe s. s),
      SGF_emitClassConstructorAllocator = (\<lambda>d s. s),
      SGF_emitClassConstructorInitializer = (\<lambda>d s. s),
      SGF_emitValueConstructor = (\<lambda>d s. s),
      SGF_emitClosure = (\<lambda>ce s. s),
      SGF_emitDestructor = (\<lambda>cd dd s. s),
      visitOtherDecl = (\<lambda>n s. Inr s)\<rparr>"

definition ctxEx :: ASTContext where
  "ctxEx = \<lparr>topLevelFnType = SILType 9\<rparr>"

definition sgmEx :: SILGenModule where
  "sgmEx = SILGenModule_ctor (SILModule_ctor ctxEx False) False"

definition unitFn :: Function where
  "unitFn = \<lparr>fnType = SILType 0, blocks = [[TupleInst [], ReturnInst (InstRef 0 0)]]\<rparr>"

definition protoEx :: FuncExpr where
  "protoEx = \<lparr>feId = 1, feBody = None, feResultType = TheEmptyTupleType\<rparr>"

definition funcEx :: FuncExpr where
  "funcEx = \<lparr>feId = 2, feBody = Some 0, feResultType = NominalType 5\<rparr>"

definition classCtorEx :: ConstructorDecl where
  "classCtorEx = \<lparr>cdId = 4, cdBody = Some 0, cdThisHasReferenceSemantics = True\<rparr>"

definition tuEx :: TranslationUnit where
  "tuEx =
     \<lparr>tuKind = Main,
      tuDecls = [FuncDeclNode \<lparr>fdId = 1, fdBody = protoEx\<rparr>, PatternBindingDeclNode 2,
                 OtherDeclNode 3],
      tuASTContext = ctxEx\<rparr>"




section \<open>The builder and the epilogue\<close>

lemma insertImpl_Some:
  "B sgf = Some i \<Longrightarrow>
   insertImpl inst sgf =
     sgf\<lparr>F := (F sgf)\<lparr>blocks := (blocks (F sgf))[i := blocks (F sgf) ! i @ [inst]]\<rparr>\<rparr>"
  by (simp add: insertImpl_def)

lemma insertImpl_None: "B sgf = None \<Longrightarrow> insertImpl inst sgf = sgf"
  by (simp add: insertImpl_def)

lemma B_insertImpl: "B (insertImpl inst sgf) = B sgf"
  by (simp add: insertImpl_def split: option.splits)

lemma fold_insertImpl:
  "B sgf = Some i \<Longrightarrow> i < length (blocks (F sgf)) \<Longrightarrow>
   fold (\<lambda>c. insertImpl (g c)) cs sgf =
     sgf\<lparr>F := (F sgf)\<lparr>blocks := (blocks (F sgf))[i := blocks (F sgf) ! i @ map g cs]\<rparr>\<rparr>"
proof (induction cs arbitrary: sgf)
  case Nil
  then show ?case by simp
next
  case (Cons c cs)
  let ?s = "insertImpl (g c) sgf"
  have b: "B ?s = Some i" using Cons.prems(1) by (simp add: B_insertImpl)
  have l: "i < length (blocks (F ?s))" using Cons.prems by (simp add: insertImpl_Some)
  show ?case
    using Cons.IH [OF b l] Cons.prems by (simp add: insertImpl_Some)
qed

lemma emitAll_Some:
  "B sgf = Some i \<Longrightarrow> i < length (blocks (F sgf)) \<Longrightarrow>
   emitAll sgf =
     sgf\<lparr>F := (F sgf)\<lparr>blocks :=
        (blocks (F sgf))[i := blocks (F sgf) ! i @ map CleanupCode (rev (Cleanups sgf))]\<rparr>\<rparr>"
  by (simp add: emitAll_def fold_insertImpl)

lemma dtor_invalid: "B sgf = None \<Longrightarrow> SILGenFunction_dtor sgf = Inr (F sgf)"
  by (simp add: SILGenFunction_dtor_def hasValidInsertionPoint_def)

lemma dtor_unreachable:
  "B sgf = Some i \<Longrightarrow> \<not> hasVoidReturn sgf \<Longrightarrow>
   SILGenFunction_dtor sgf =
     Inr ((F sgf)\<lparr>blocks := (blocks (F sgf))[i := blocks (F sgf) ! i @ [UnreachableInst]]\<rparr>)"
  by (simp add: SILGenFunction_dtor_def hasValidInsertionPoint_def createUnreachable_def
      insertTerminator_def insertImpl_Some)

lemma dtor_assert:
  "B sgf = Some i \<Longrightarrow> hasVoidReturn sgf \<Longrightarrow> epilogBB sgf = Some e \<Longrightarrow>
   SILGenFunction_dtor sgf = Inl EpilogNotTerminated"
  by (simp add: SILGenFunction_dtor_def hasValidInsertionPoint_def)

lemma dtor_return:
  assumes "B sgf = Some i" "hasVoidReturn sgf" "epilogBB sgf = None"
  shows "SILGenFunction_dtor sgf =
     Inr ((F sgf)\<lparr>blocks := (blocks (F sgf))[i := blocks (F sgf) ! i @
        TupleInst [] # map CleanupCode (rev (Cleanups sgf)) @
        [ReturnInst (InstRef i (length (blocks (F sgf) ! i)))]]\<rparr>)"
proof (cases "i < length (blocks (F sgf))")
  case True
  with assms show ?thesis
    by (simp add: SILGenFunction_dtor_def hasValidInsertionPoint_def createEmptyTuple_def
      emitReturnAndCleanups_def createReturn_def insertTerminator_def insertImpl_Some
      emitAll_Some B_insertImpl)
next
  case False
  have fold_id: "fold (\<lambda>c. insertImpl (CleanupCode c)) cs s = s"
    if "B s = Some i" "blocks (F s) = blocks (F sgf)" for cs s
  proof (induction cs)
    case Nil
    show ?case by simp
  next
    case (Cons c cs)
    have le: "length (blocks (F s)) \<le> i" using that(2) False by simp
    have "insertImpl (CleanupCode c) s = s"
      using that(1) by (simp add: insertImpl_Some list_update_beyond [OF le])
    with Cons show ?case by simp
  qed
  have le: "length (blocks (F sgf)) \<le> i" using False by simp
  show ?thesis
    using assms
    by (simp add: SILGenFunction_dtor_def hasValidInsertionPoint_def createEmptyTuple_def
      emitReturnAndCleanups_def createReturn_def insertTerminator_def insertImpl_Some
      emitAll_def fold_id list_update_beyond [OF le])
qed

lemma terminators_append: "terminators (xs @ ys) = terminators xs + terminators ys"
  by (simp add: terminators_def)

lemma terminators_cleanups: "terminators (map CleanupCode cs) = 0"
  by (induction cs) (simp_all add: terminators_def)

lemma openBlocks_empty_iff:
  "openBlocks f = [] \<longleftrightarrow> (\<forall>j<length (blocks f). \<not> isOpen (blocks f ! j))"
  by (auto simp: openBlocks_def filter_empty_conv in_set_conv_nth dest: nth_mem)

lemma onlyCurrentOpen_iff:
  "onlyCurrentOpen sgf \<longleftrightarrow>
     (\<forall>j<length (blocks (F sgf)). isOpen (blocks (F sgf) ! j) \<longrightarrow> B sgf = Some j)"
  by (auto simp: onlyCurrentOpen_def list_all_iff)

lemma dtor_cases:
  assumes "SILGenFunction_dtor sgf = Inr f"
  obtains
    (invalid) "B sgf = None" "f = F sgf"
  | (terminated) i t where "B sgf = Some i"
      "f = (F sgf)\<lparr>blocks := (blocks (F sgf))[i := blocks (F sgf) ! i @ t]\<rparr>"
      "terminators t = 1"
proof (cases "B sgf")
  case None
  with assms invalid show ?thesis by (simp add: dtor_invalid)
next
  case (Some i)
  show ?thesis
  proof (cases "hasVoidReturn sgf")
    case False
    with Some assms have "f = (F sgf)\<lparr>blocks := (blocks (F sgf))[i := blocks (F sgf) ! i @ [UnreachableInst]]\<rparr>"
      by (simp add: dtor_unreachable)
    moreover have "terminators [UnreachableInst] = 1" by (simp add: terminators_def)
    ultimately show ?thesis using Some terminated by blast
  next
    case True
    show ?thesis
    proof (cases "epilogBB sgf")
      case (Some e)
      with True \<open>B sgf = Some i\<close> assms show ?thesis by (simp add: dtor_assert)
    next
      case None
      have "f = (F sgf)\<lparr>blocks := (blocks (F sgf))[i := blocks (F sgf) ! i @
        (TupleInst [] # map CleanupCode (rev (Cleanups sgf)) @
        [ReturnInst (InstRef i (length (blocks (F sgf) ! i)))])]\<rparr>"
        using assms True None \<open>B sgf = Some i\<close> by (simp add: dtor_return)
      moreover have "terminators (TupleInst [] # map CleanupCode (rev (Cleanups sgf)) @
        [ReturnInst (InstRef i (length (blocks (F sgf) ! i)))]) = 1"
        using terminators_cleanups [of "rev (Cleanups sgf)"]
        by (simp add: terminators_def)
      ultimately show ?thesis using \<open>B sgf = Some i\<close> terminated by blast
    qed
  qed
qed

lemma dtor_length:
  "SILGenFunction_dtor sgf = Inr f' \<Longrightarrow> length (blocks f') = length (blocks (F sgf))"
  by (erule dtor_cases) simp_all

lemma ctor_eq:
  "SILGenFunction_ctor f hvr =
     \<lparr>F = f\<lparr>blocks := blocks f @ [[]]\<rparr>, B = Some (length (blocks f)), Cleanups = [],
      hasVoidReturn = hvr, epilogBB = None\<rparr>"
  by (simp add: SILGenFunction_ctor_def BasicBlock_ctor_def)

lemma scope_empty_body:
  "SILGenFunction_scope hvr (\<lambda>s. s) (Function_ctor ty) =
     Inr \<lparr>fnType = ty,
          blocks = [if hvr then [TupleInst [], ReturnInst (InstRef 0 0)]
                    else [UnreachableInst]]\<rparr>"
  by (simp add: SILGenFunction_scope_def ctor_eq Function_ctor_def dtor_return
      dtor_unreachable)

subsection \<open>The constructor and the builder keep what the epilogue relies on\<close>

lemma onlyCurrentOpen_ctor:
  assumes "openBlocks f = []"
  shows "wfInsertionPoint (SILGenFunction_ctor f hvr) \<and> onlyCurrentOpen (SILGenFunction_ctor f hvr)"
proof -
  have closed: "\<not> isOpen (blocks f ! j)" if "j < length (blocks f)" for j
    using assms that by (simp add: openBlocks_empty_iff)
  have "length (blocks f) = j"
    if "j < Suc (length (blocks f))" "isOpen ((blocks f @ [[]]) ! j)" for j
  proof (rule ccontr)
    assume "length (blocks f) \<noteq> j"
    with that(1) have lt: "j < length (blocks f)" by simp
    with that(2) closed [OF lt] show False by (simp add: nth_append)
  qed
  then show ?thesis
    by (simp add: ctor_eq wfInsertionPoint_def onlyCurrentOpen_iff)
qed

lemma onlyCurrentOpen_insertImpl:
  assumes wf: "wfInsertionPoint sgf" and inv: "onlyCurrentOpen sgf"
  shows "wfInsertionPoint (insertImpl inst sgf) \<and> onlyCurrentOpen (insertImpl inst sgf)"
proof (cases "B sgf")
  case None
  with assms show ?thesis by (simp add: insertImpl_None)
next
  case (Some i)
  from wf Some have i: "i < length (blocks (F sgf))" by (simp add: wfInsertionPoint_def)
  have "i = j"
    if "j < length (blocks (F sgf))"
      "isOpen ((blocks (F sgf))[i := blocks (F sgf) ! i @ [inst]] ! j)" for j
  proof (rule ccontr)
    assume ne: "i \<noteq> j"
    with that have "isOpen (blocks (F sgf) ! j)" by simp
    with inv that(1) Some ne show False by (simp add: onlyCurrentOpen_iff)
  qed
  with Some i show ?thesis
    by (simp add: insertImpl_Some wfInsertionPoint_def onlyCurrentOpen_iff)
qed

lemma onlyCurrentOpen_insertTerminator:
  assumes wf: "wfInsertionPoint sgf" and inv: "onlyCurrentOpen sgf" and t: "isTerminator inst"
  shows "wfInsertionPoint (insertTerminator inst sgf) \<and>
         onlyCurrentOpen (insertTerminator inst sgf)"
proof (cases "B sgf")
  case None
  with inv show ?thesis
    by (simp add: insertTerminator_def insertImpl_None wfInsertionPoint_def onlyCurrentOpen_iff)
next
  case (Some i)
  have "\<not> isOpen ((blocks (F sgf))[i := blocks (F sgf) ! i @ [inst]] ! j)"
    if j: "j < length (blocks (F sgf))" for j
  proof (cases "i = j")
    case True
    with j t show ?thesis by (simp add: isOpen_def terminators_append terminators_def)
  next
    case False
    with inv j Some show ?thesis by (auto simp: onlyCurrentOpen_iff)
  qed
  with Some show ?thesis
    by (simp add: insertTerminator_def insertImpl_Some wfInsertionPoint_def
        onlyCurrentOpen_iff)
qed

lemma onlyCurrentOpen_pushCleanup:
  "wfInsertionPoint (pushCleanup c sgf) = wfInsertionPoint sgf \<and>
   onlyCurrentOpen (pushCleanup c sgf) = onlyCurrentOpen sgf"
  by (simp add: pushCleanup_def wfInsertionPoint_def onlyCurrentOpen_def split: option.splits)

subsection \<open>Properties of the function lowering context\<close>

text \<open>
  Claim C10. The constructor of a context appends an empty block to the function and
  makes it the insertion point, so the function has a block. A body emitter that removes
  no block leaves at least one block in the emitted function. With a body that appends
  nothing, the function built over a shell is one block: the empty tuple and its return
  for a void return, the unreachable marker otherwise.
\<close>

theorem context_creates_entry_block:
  "SILGenFunction_ctor f hvr =
     \<lparr>F = f\<lparr>blocks := blocks f @ [[]]\<rparr>, B = Some (length (blocks f)), Cleanups = [],
      hasVoidReturn = hvr, epilogBB = None\<rparr> \<and>
   blocks (F (SILGenFunction_ctor f hvr)) \<noteq> [] \<and>
   (\<forall>body f'.
      length (blocks (F (SILGenFunction_ctor f hvr)))
        \<le> length (blocks (F (body (SILGenFunction_ctor f hvr)))) \<longrightarrow>
      SILGenFunction_scope hvr body f = Inr f' \<longrightarrow> blocks f' \<noteq> []) \<and>
   SILGenFunction_scope hvr (\<lambda>s. s) (Function_ctor ty) =
     Inr \<lparr>fnType = ty,
          blocks = [if hvr then [TupleInst [], ReturnInst (InstRef 0 0)]
                    else [UnreachableInst]]\<rparr>"
proof (intro conjI allI impI)
  show "SILGenFunction_ctor f hvr =
     \<lparr>F = f\<lparr>blocks := blocks f @ [[]]\<rparr>, B = Some (length (blocks f)), Cleanups = [],
      hasVoidReturn = hvr, epilogBB = None\<rparr>"
    by (rule ctor_eq)
  show "blocks (F (SILGenFunction_ctor f hvr)) \<noteq> []"
    by (simp add: ctor_eq)
  show "SILGenFunction_scope hvr (\<lambda>s. s) (Function_ctor ty) =
     Inr \<lparr>fnType = ty,
          blocks = [if hvr then [TupleInst [], ReturnInst (InstRef 0 0)]
                    else [UnreachableInst]]\<rparr>"
    by (rule scope_empty_body)
next
  fix body f'
  assume le: "length (blocks (F (SILGenFunction_ctor f hvr)))
        \<le> length (blocks (F (body (SILGenFunction_ctor f hvr))))"
    and r: "SILGenFunction_scope hvr body f = Inr f'"
  from r have "length (blocks f') = length (blocks (F (body (SILGenFunction_ctor f hvr))))"
    by (simp add: SILGenFunction_scope_def dtor_length)
  moreover have "0 < length (blocks (F (SILGenFunction_ctor f hvr)))"
    by (simp add: ctor_eq)
  ultimately show "blocks f' \<noteq> []" using le by auto
qed

theorem context_creates_entry_block_witness:
  "length (blocks (F (SILGenFunction_ctor (Function_ctor (SILType 0)) True)))
     \<le> length (blocks (F (pushCleanup 3 (SILGenFunction_ctor (Function_ctor (SILType 0)) True)))) \<and>
   SILGenFunction_scope True (pushCleanup 3) (Function_ctor (SILType 0)) =
     Inr \<lparr>fnType = SILType 0,
          blocks = [[TupleInst [], CleanupCode 3, ReturnInst (InstRef 0 0)]]\<rparr> \<and>
   blocks \<lparr>fnType = SILType 0,
           blocks = [[TupleInst [], CleanupCode 3, ReturnInst (InstRef 0 0)]]\<rparr> \<noteq> []"
proof -
  have le: "length (blocks (F (SILGenFunction_ctor (Function_ctor (SILType 0)) True)))
     \<le> length (blocks (F (pushCleanup 3 (SILGenFunction_ctor (Function_ctor (SILType 0)) True))))"
    by (simp add: pushCleanup_def)
  have r: "SILGenFunction_scope True (pushCleanup 3) (Function_ctor (SILType 0)) =
     Inr \<lparr>fnType = SILType 0,
          blocks = [[TupleInst [], CleanupCode 3, ReturnInst (InstRef 0 0)]]\<rparr>"
    by (simp add: SILGenFunction_scope_def ctor_eq Function_ctor_def pushCleanup_def
        dtor_return)
  from context_creates_entry_block [of "Function_ctor (SILType 0)" True] le r show ?thesis by blast
qed





text \<open>
  Claim C2. In a context with a void return, a valid insertion point and no epilog
  block, the epilogue appends to the current block an empty tuple, then the code of every
  cleanup on the stack, the last pushed first, then a return of that tuple: the operand of
  the return is the position of the new tuple instruction, where no instruction was before.
  Pushing appends to the stack, so the reversed stack is the reverse push order.
\<close>

theorem voidable_fallthrough_returns_unit:
  assumes "hasVoidReturn sgf" and "B sgf = Some i" and "i < length (blocks (F sgf))"
    and "epilogBB sgf = None"
  shows "\<exists>f v. SILGenFunction_dtor sgf = Inr f \<and>
           v = InstRef i (length (blocks (F sgf) ! i)) \<and>
           f = (F sgf)\<lparr>blocks := (blocks (F sgf))[i := blocks (F sgf) ! i @
                  [TupleInst []] @ map CleanupCode (rev (Cleanups sgf)) @ [ReturnInst v]]\<rparr> \<and>
           instAt (F sgf) v = None \<and> instAt f v = Some (TupleInst []) \<and>
           Cleanups (fold pushCleanup cs sgf) = Cleanups sgf @ cs"
proof -
  have "Cleanups (fold pushCleanup cs s) = Cleanups s @ cs" for s
    by (induction cs arbitrary: s) (simp_all add: pushCleanup_def)
  with assms show ?thesis
    by (simp add: dtor_return instAt_def nth_append)
qed

theorem voidable_fallthrough_returns_unit_witness:
  "hasVoidReturn sgfEx \<and> B sgfEx = Some 1 \<and> 1 < length (blocks (F sgfEx)) \<and>
   epilogBB sgfEx = None \<and>
   SILGenFunction_dtor sgfEx =
     Inr \<lparr>fnType = SILType 0,
          blocks = [[OtherInst 1, BranchInst 1],
                    [OtherInst 2, TupleInst [], CleanupCode 8, CleanupCode 7,
                     ReturnInst (InstRef 1 1)]]\<rparr>"
proof -
  have h: "hasVoidReturn sgfEx" "B sgfEx = Some 1" "1 < length (blocks (F sgfEx))"
    "epilogBB sgfEx = None"
    by (simp_all add: sgfEx_def)
  from voidable_fallthrough_returns_unit [OF h] h show ?thesis by (auto simp: sgfEx_def)
qed

text \<open>
  Claim C3. In a context without a void return and with a valid insertion point, the
  epilogue does not fault: it appends the unreachable marker to the current block, which
  then ends with it, and it adds no return.
\<close>

theorem nonvoidable_fallthrough_is_unreachable:
  assumes "\<not> hasVoidReturn sgf" and "B sgf = Some i" and "i < length (blocks (F sgf))"
  shows "\<exists>f. SILGenFunction_dtor sgf = Inr f \<and>
           f = (F sgf)\<lparr>blocks := (blocks (F sgf))[i := blocks (F sgf) ! i @ [UnreachableInst]]\<rparr> \<and>
           last (blocks f ! i) = UnreachableInst \<and>
           (\<forall>v. ReturnInst v \<in> set (blocks f ! i) \<longrightarrow> ReturnInst v \<in> set (blocks (F sgf) ! i))"
  using assms by (simp add: dtor_unreachable)

theorem nonvoidable_fallthrough_is_unreachable_witness:
  "\<not> hasVoidReturn (sgfEx\<lparr>hasVoidReturn := False\<rparr>) \<and>
   B (sgfEx\<lparr>hasVoidReturn := False\<rparr>) = Some 1 \<and>
   1 < length (blocks (F (sgfEx\<lparr>hasVoidReturn := False\<rparr>))) \<and>
   SILGenFunction_dtor (sgfEx\<lparr>hasVoidReturn := False\<rparr>) =
     Inr \<lparr>fnType = SILType 0,
          blocks = [[OtherInst 1, BranchInst 1], [OtherInst 2, UnreachableInst]]\<rparr>"
proof -
  have h: "\<not> hasVoidReturn (sgfEx\<lparr>hasVoidReturn := False\<rparr>)"
    "B (sgfEx\<lparr>hasVoidReturn := False\<rparr>) = Some 1"
    "1 < length (blocks (F (sgfEx\<lparr>hasVoidReturn := False\<rparr>)))"
    by (simp_all add: sgfEx_def)
  from nonvoidable_fallthrough_is_unreachable [OF h] h show ?thesis by (auto simp: sgfEx_def)
qed

section \<open>The emission policies\<close>

lemma andThen_Inl: "andThen (Inl e) k = Inl e"
  by (simp add: andThen_def)

lemma andThen_Inr: "andThen (Inr x) k = k x"
  by (simp add: andThen_def)

lemma andThen_eq_Inr: "andThen r k = Inr y \<longleftrightarrow> (\<exists>x. r = Inr x \<and> k x = Inr y)"
  by (cases r) (simp_all add: andThen_def)

lemma preEmit_eq_Inr:
  "preEmitFunction ext sgm k = Inr f \<longleftrightarrow>
     \<not> hasFunction (M sgm) k \<and> f = Function_ctor (getConstantType ext k)"
  by (auto simp: preEmitFunction_def)

lemma preEmit_present:
  "hasFunction (M sgm) k \<Longrightarrow> preEmitFunction ext sgm k = Inl AlreadyGenerated"
  by (simp add: preEmitFunction_def)

lemma postEmit_eq_Inr:
  "postEmitFunction ext k f sgm = Inr sgm' \<longleftrightarrow>
     verify ext f \<and>
     sgm' = sgm\<lparr>M := (M sgm)\<lparr>functions := (functions (M sgm))(k \<mapsto> f)\<rparr>\<rparr>"
  by (auto simp: postEmitFunction_def)

lemma emitFunction_eq_Inr:
  assumes "feBody fe \<noteq> None"
  shows "emitFunction ext l fe sgm = Inr (r, sgm') \<longleftrightarrow>
     (\<exists>f. \<not> hasFunction (M sgm) (SILConstant_ofLoc l) \<and>
        SILGenFunction_scope (isVoidableType (feResultType fe)) (SGF_emitFunction ext fe)
          (Function_ctor (getConstantType ext (SILConstant_ofLoc l))) = Inr f \<and>
        verify ext f \<and> r = Some f \<and>
        sgm' = sgm\<lparr>M := (M sgm)\<lparr>functions :=
                 (functions (M sgm))(SILConstant_ofLoc l \<mapsto> f)\<rparr>\<rparr>)"
  using assms
  by (auto simp: emitFunction_def andThen_eq_Inr preEmit_eq_Inr postEmit_eq_Inr)

lemma emitClosure_eq_Inr:
  "emitClosure ext ce sgm = Inr (r, sgm') \<longleftrightarrow>
     (\<exists>f. \<not> hasFunction (M sgm) (SILConstant_ofLoc (CapturingExprLoc ce)) \<and>
        SILGenFunction_scope False (SGF_emitClosure ext ce)
          (Function_ctor (getConstantType ext (SILConstant_ofLoc (CapturingExprLoc ce)))) = Inr f \<and>
        verify ext f \<and> r = Some f \<and>
        sgm' = sgm\<lparr>M := (M sgm)\<lparr>functions :=
                 (functions (M sgm))(SILConstant_ofLoc (CapturingExprLoc ce) \<mapsto> f)\<rparr>\<rparr>)"
  by (auto simp: emitClosure_def andThen_eq_Inr preEmit_eq_Inr postEmit_eq_Inr)

lemma emitDestructor_eq_Inr:
  "emitDestructor ext cd dd sgm = Inr (r, sgm') \<longleftrightarrow>
     (\<exists>f. \<not> hasFunction (M sgm) (SILConstant (ValueDeclLoc cd) Destructor) \<and>
        SILGenFunction_scope True (SGF_emitDestructor ext cd dd)
          (Function_ctor (getConstantType ext (SILConstant (ValueDeclLoc cd) Destructor))) = Inr f \<and>
        verify ext f \<and> r = Some f \<and>
        sgm' = sgm\<lparr>M := (M sgm)\<lparr>functions :=
                 (functions (M sgm))(SILConstant (ValueDeclLoc cd) Destructor \<mapsto> f)\<rparr>\<rparr>)"
  by (auto simp: emitDestructor_def andThen_eq_Inr preEmit_eq_Inr postEmit_eq_Inr)

lemma emitConstructor_value_eq_Inr:
  assumes "cdBody d \<noteq> None" and "\<not> cdThisHasReferenceSemantics d"
  shows "emitConstructor ext d sgm = Inr (r, sgm') \<longleftrightarrow>
     (\<exists>f. \<not> hasFunction (M sgm) (SILConstant (ValueDeclLoc (cdId d)) Plain) \<and>
        SILGenFunction_scope True (SGF_emitValueConstructor ext d)
          (Function_ctor (getConstantType ext (SILConstant (ValueDeclLoc (cdId d)) Plain))) = Inr f \<and>
        verify ext f \<and> r = Some f \<and>
        sgm' = sgm\<lparr>M := (M sgm)\<lparr>functions :=
                 (functions (M sgm))(SILConstant (ValueDeclLoc (cdId d)) Plain \<mapsto> f)\<rparr>\<rparr>)"
  using assms
  by (auto simp: emitConstructor_def SILConstant_ofConstructor_def andThen_eq_Inr
      preEmit_eq_Inr postEmit_eq_Inr)

lemma emitConstructor_class_eq_Inr:
  assumes "cdBody d \<noteq> None" and "cdThisHasReferenceSemantics d"
  shows "emitConstructor ext d sgm = Inr (r, sgm') \<longleftrightarrow>
     (\<exists>f1 f2.
        \<not> hasFunction (M sgm) (SILConstant (ValueDeclLoc (cdId d)) Allocator) \<and>
        \<not> hasFunction (M sgm) (SILConstant (ValueDeclLoc (cdId d)) Initializer) \<and>
        SILGenFunction_scope True (SGF_emitClassConstructorAllocator ext d)
          (Function_ctor (getConstantType ext (SILConstant (ValueDeclLoc (cdId d)) Allocator)))
          = Inr f1 \<and>
        verify ext f1 \<and>
        SILGenFunction_scope True (SGF_emitClassConstructorInitializer ext d)
          (Function_ctor (getConstantType ext (SILConstant (ValueDeclLoc (cdId d)) Initializer)))
          = Inr f2 \<and>
        verify ext f2 \<and> r = Some f1 \<and>
        sgm' = sgm\<lparr>M := (M sgm)\<lparr>functions :=
                 (functions (M sgm))
                   (SILConstant (ValueDeclLoc (cdId d)) Allocator \<mapsto> f1,
                    SILConstant (ValueDeclLoc (cdId d)) Initializer \<mapsto> f2)\<rparr>\<rparr>)"
  using assms
  by (auto simp: emitConstructor_def SILConstant_ofConstructor_def andThen_eq_Inr
      preEmit_eq_Inr postEmit_eq_Inr hasFunction_def)

lemma emitConstructor_init_present:
  assumes "cdBody d \<noteq> None" and "cdThisHasReferenceSemantics d"
    and "hasFunction (M sgm) (SILConstant (ValueDeclLoc (cdId d)) Initializer)"
  shows "\<exists>e. emitConstructor ext d sgm = Inl e"
proof (cases "emitConstructor ext d sgm")
  case (Inl e)
  then show ?thesis by blast
next
  case (Inr p)
  obtain r sgm' where "p = (r, sgm')" by (cases p)
  with Inr assms show ?thesis by (simp add: emitConstructor_class_eq_Inr)
qed

lemma map_le_fresh: "m k = None \<Longrightarrow> m \<subseteq>\<^sub>m m(k \<mapsto> v)"
  by (auto simp: map_le_def)

lemma map_le_fresh2: "m k = None \<Longrightarrow> m k' = None \<Longrightarrow> m \<subseteq>\<^sub>m m(k \<mapsto> v, k' \<mapsto> v')"
  by (auto simp: map_le_def)

lemma dom_diff_fresh: "m k = None \<Longrightarrow> dom (m(k \<mapsto> v)) - dom m = {k}"
  by (auto simp: dom_def)

lemma dom_diff_fresh2:
  "m k = None \<Longrightarrow> m k' = None \<Longrightarrow> dom (m(k \<mapsto> v, k' \<mapsto> v')) - dom m = {k, k'}"
  by (auto simp: dom_def)

subsection \<open>Properties of the orchestrator\<close>

text \<open>
  Claim C8. A function expression without a body, visited or emitted, and a
  constructor declaration without a body give no function and leave the module context,
  with its function table, as it was; there is no fault.
\<close>

theorem prototype_skip:
  "(feBody fe = None \<longrightarrow> emitFunction ext l fe sgm = Inr (None, sgm)) \<and>
   (feBody (fdBody fd) = None \<longrightarrow> visitFuncDecl ext fd sgm = Inr sgm) \<and>
   (cdBody d = None \<longrightarrow> emitConstructor ext d sgm = Inr (None, sgm))"
  by (simp add: emitFunction_def visitFuncDecl_def emitConstructor_def andThen_Inr)

theorem prototype_skip_witness:
  "feBody protoEx = None \<and>
   emitFunction extEx (ValueDeclLoc 1) protoEx sgmEx = Inr (None, sgmEx) \<and>
   visitFuncDecl extEx \<lparr>fdId = 1, fdBody = protoEx\<rparr> sgmEx = Inr sgmEx \<and>
   cdBody (classCtorEx\<lparr>cdBody := None\<rparr>) = None \<and>
   emitConstructor extEx (classCtorEx\<lparr>cdBody := None\<rparr>) sgmEx = Inr (None, sgmEx)"
proof -
  have p: "feBody protoEx = None" "feBody (fdBody \<lparr>fdId = 1, fdBody = protoEx\<rparr>) = None"
    by (simp_all add: protoEx_def)
  have c: "cdBody (classCtorEx\<lparr>cdBody := None\<rparr>) = None" by simp
  from prototype_skip [of protoEx extEx "ValueDeclLoc 1" sgmEx "\<lparr>fdId = 1, fdBody = protoEx\<rparr>"
      "classCtorEx\<lparr>cdBody := None\<rparr>"] p c
  show ?thesis by simp
qed

text \<open>
  Claim C4. For a constructor with a body. If the type has reference semantics, the
  emission succeeds exactly when the Allocator key and the Initializer key are both absent
  from the table, a context with a void return built over a fresh shell gives a function
  for each of the two emitters, and both functions verify; the table then gains these two
  keys, which differ, and nothing else. If the type has value semantics, the same holds
  with the one Plain key and one context with a void return.
\<close>

theorem constructor_splitting:
  assumes "cdBody d \<noteq> None"
  shows
  "(cdThisHasReferenceSemantics d \<longrightarrow>
      (emitConstructor ext d sgm = Inr (r, sgm') \<longleftrightarrow>
         (\<exists>f1 f2.
            \<not> hasFunction (M sgm) (SILConstant (ValueDeclLoc (cdId d)) Allocator) \<and>
            \<not> hasFunction (M sgm) (SILConstant (ValueDeclLoc (cdId d)) Initializer) \<and>
            SILGenFunction_scope True (SGF_emitClassConstructorAllocator ext d)
              (Function_ctor
                 (getConstantType ext (SILConstant (ValueDeclLoc (cdId d)) Allocator)))
              = Inr f1 \<and>
            verify ext f1 \<and>
            SILGenFunction_scope True (SGF_emitClassConstructorInitializer ext d)
              (Function_ctor
                 (getConstantType ext (SILConstant (ValueDeclLoc (cdId d)) Initializer)))
              = Inr f2 \<and>
            verify ext f2 \<and> r = Some f1 \<and>
            sgm' = sgm\<lparr>M := (M sgm)\<lparr>functions :=
                     (functions (M sgm))
                       (SILConstant (ValueDeclLoc (cdId d)) Allocator \<mapsto> f1,
                        SILConstant (ValueDeclLoc (cdId d)) Initializer \<mapsto> f2)\<rparr>\<rparr>)) \<and>
      (emitConstructor ext d sgm = Inr (r, sgm') \<longrightarrow>
         dom (functions (M sgm')) - dom (functions (M sgm)) =
           {SILConstant (ValueDeclLoc (cdId d)) Allocator,
            SILConstant (ValueDeclLoc (cdId d)) Initializer} \<and>
         card (dom (functions (M sgm')) - dom (functions (M sgm))) = 2 \<and>
         functions (M sgm) \<subseteq>\<^sub>m functions (M sgm'))) \<and>
   (\<not> cdThisHasReferenceSemantics d \<longrightarrow>
      (emitConstructor ext d sgm = Inr (r, sgm') \<longleftrightarrow>
         (\<exists>f.
            \<not> hasFunction (M sgm) (SILConstant (ValueDeclLoc (cdId d)) Plain) \<and>
            SILGenFunction_scope True (SGF_emitValueConstructor ext d)
              (Function_ctor (getConstantType ext (SILConstant (ValueDeclLoc (cdId d)) Plain)))
              = Inr f \<and>
            verify ext f \<and> r = Some f \<and>
            sgm' = sgm\<lparr>M := (M sgm)\<lparr>functions :=
                     (functions (M sgm))
                       (SILConstant (ValueDeclLoc (cdId d)) Plain \<mapsto> f)\<rparr>\<rparr>)) \<and>
      (emitConstructor ext d sgm = Inr (r, sgm') \<longrightarrow>
         dom (functions (M sgm')) - dom (functions (M sgm)) =
           {SILConstant (ValueDeclLoc (cdId d)) Plain} \<and>
         functions (M sgm) \<subseteq>\<^sub>m functions (M sgm')))"
proof (intro conjI impI)
  assume c: "cdThisHasReferenceSemantics d"
  show "emitConstructor ext d sgm = Inr (r, sgm') \<longleftrightarrow>
         (\<exists>f1 f2.
            \<not> hasFunction (M sgm) (SILConstant (ValueDeclLoc (cdId d)) Allocator) \<and>
            \<not> hasFunction (M sgm) (SILConstant (ValueDeclLoc (cdId d)) Initializer) \<and>
            SILGenFunction_scope True (SGF_emitClassConstructorAllocator ext d)
              (Function_ctor
                 (getConstantType ext (SILConstant (ValueDeclLoc (cdId d)) Allocator)))
              = Inr f1 \<and>
            verify ext f1 \<and>
            SILGenFunction_scope True (SGF_emitClassConstructorInitializer ext d)
              (Function_ctor
                 (getConstantType ext (SILConstant (ValueDeclLoc (cdId d)) Initializer)))
              = Inr f2 \<and>
            verify ext f2 \<and> r = Some f1 \<and>
            sgm' = sgm\<lparr>M := (M sgm)\<lparr>functions :=
                     (functions (M sgm))
                       (SILConstant (ValueDeclLoc (cdId d)) Allocator \<mapsto> f1,
                        SILConstant (ValueDeclLoc (cdId d)) Initializer \<mapsto> f2)\<rparr>\<rparr>)"
    by (rule emitConstructor_class_eq_Inr [OF assms c])
next
  assume c: "cdThisHasReferenceSemantics d"
    and r: "emitConstructor ext d sgm = Inr (r, sgm')"
  from r obtain f1 f2 where
    a: "functions (M sgm) (SILConstant (ValueDeclLoc (cdId d)) Allocator) = None"
    and i: "functions (M sgm) (SILConstant (ValueDeclLoc (cdId d)) Initializer) = None"
    and s: "functions (M sgm') = (functions (M sgm))
                       (SILConstant (ValueDeclLoc (cdId d)) Allocator \<mapsto> f1,
                        SILConstant (ValueDeclLoc (cdId d)) Initializer \<mapsto> f2)"
    by (auto simp: emitConstructor_class_eq_Inr [OF assms c] hasFunction_def)
  show d2: "dom (functions (M sgm')) - dom (functions (M sgm)) =
           {SILConstant (ValueDeclLoc (cdId d)) Allocator,
            SILConstant (ValueDeclLoc (cdId d)) Initializer}"
    unfolding s using a i by (simp only: dom_diff_fresh2)
  show "card (dom (functions (M sgm')) - dom (functions (M sgm))) = 2"
    unfolding d2 by simp
  show "functions (M sgm) \<subseteq>\<^sub>m functions (M sgm')"
    unfolding s using a i by (simp only: map_le_fresh2)
next
  assume c: "\<not> cdThisHasReferenceSemantics d"
  show "emitConstructor ext d sgm = Inr (r, sgm') \<longleftrightarrow>
         (\<exists>f.
            \<not> hasFunction (M sgm) (SILConstant (ValueDeclLoc (cdId d)) Plain) \<and>
            SILGenFunction_scope True (SGF_emitValueConstructor ext d)
              (Function_ctor (getConstantType ext (SILConstant (ValueDeclLoc (cdId d)) Plain)))
              = Inr f \<and>
            verify ext f \<and> r = Some f \<and>
            sgm' = sgm\<lparr>M := (M sgm)\<lparr>functions :=
                     (functions (M sgm))
                       (SILConstant (ValueDeclLoc (cdId d)) Plain \<mapsto> f)\<rparr>\<rparr>)"
    by (rule emitConstructor_value_eq_Inr [OF assms c])
next
  assume c: "\<not> cdThisHasReferenceSemantics d"
    and r: "emitConstructor ext d sgm = Inr (r, sgm')"
  from r obtain f where
    a: "functions (M sgm) (SILConstant (ValueDeclLoc (cdId d)) Plain) = None"
    and s: "functions (M sgm') = (functions (M sgm))
                       (SILConstant (ValueDeclLoc (cdId d)) Plain \<mapsto> f)"
    by (auto simp: emitConstructor_value_eq_Inr [OF assms c] hasFunction_def)
  show "dom (functions (M sgm')) - dom (functions (M sgm)) =
           {SILConstant (ValueDeclLoc (cdId d)) Plain}"
    unfolding s using a by (simp only: dom_diff_fresh)
  show "functions (M sgm) \<subseteq>\<^sub>m functions (M sgm')"
    unfolding s using a by (simp only: map_le_fresh)
qed

theorem constructor_splitting_witness:
  "cdBody classCtorEx \<noteq> None \<and> cdThisHasReferenceSemantics classCtorEx \<and>
   emitConstructor extEx classCtorEx sgmEx =
     Inr (Some unitFn,
          sgmEx\<lparr>M := (M sgmEx)\<lparr>functions :=
            (functions (M sgmEx))
              (SILConstant (ValueDeclLoc 4) Allocator \<mapsto> unitFn,
               SILConstant (ValueDeclLoc 4) Initializer \<mapsto> unitFn)\<rparr>\<rparr>) \<and>
   cdBody (classCtorEx\<lparr>cdThisHasReferenceSemantics := False\<rparr>) \<noteq> None \<and>
   emitConstructor extEx (classCtorEx\<lparr>cdThisHasReferenceSemantics := False\<rparr>) sgmEx =
     Inr (Some unitFn,
          sgmEx\<lparr>M := (M sgmEx)\<lparr>functions :=
            (functions (M sgmEx))(SILConstant (ValueDeclLoc 4) Plain \<mapsto> unitFn)\<rparr>\<rparr>)"
proof -
  have b: "cdBody classCtorEx \<noteq> None" "cdThisHasReferenceSemantics classCtorEx"
    "cdBody (classCtorEx\<lparr>cdThisHasReferenceSemantics := False\<rparr>) \<noteq> None"
    by (simp_all add: classCtorEx_def)
  have nv: "\<not> cdThisHasReferenceSemantics (classCtorEx\<lparr>cdThisHasReferenceSemantics := False\<rparr>)"
    by simp
  have i: "cdId classCtorEx = 4" by (simp add: classCtorEx_def)
  have e: "\<not> hasFunction (M sgmEx) k" for k
    by (simp add: sgmEx_def SILGenModule_ctor_def SILModule_ctor_def hasFunction_def)
  have x: "verify extEx f" "getConstantType extEx k = SILType 0"
    "SGF_emitClassConstructorAllocator extEx dd = (\<lambda>s. s)"
    "SGF_emitClassConstructorInitializer extEx dd = (\<lambda>s. s)"
    "SGF_emitValueConstructor extEx dd = (\<lambda>s. s)" for f k dd
    by (simp_all add: extEx_def)
  have s: "SILGenFunction_scope True (\<lambda>s. s) (Function_ctor (SILType 0)) = Inr unitFn"
    by (simp add: scope_empty_body unitFn_def)
  from constructor_splitting [OF b(1), of extEx sgmEx "Some unitFn"
      "sgmEx\<lparr>M := (M sgmEx)\<lparr>functions :=
            (functions (M sgmEx))
              (SILConstant (ValueDeclLoc 4) Allocator \<mapsto> unitFn,
               SILConstant (ValueDeclLoc 4) Initializer \<mapsto> unitFn)\<rparr>\<rparr>"]
  have one: "emitConstructor extEx classCtorEx sgmEx =
     Inr (Some unitFn,
          sgmEx\<lparr>M := (M sgmEx)\<lparr>functions :=
            (functions (M sgmEx))
              (SILConstant (ValueDeclLoc 4) Allocator \<mapsto> unitFn,
               SILConstant (ValueDeclLoc 4) Initializer \<mapsto> unitFn)\<rparr>\<rparr>)"
    using b(2) i e x s by simp
  from constructor_splitting [OF b(3), of extEx sgmEx "Some unitFn"
      "sgmEx\<lparr>M := (M sgmEx)\<lparr>functions :=
            (functions (M sgmEx))(SILConstant (ValueDeclLoc 4) Plain \<mapsto> unitFn)\<rparr>\<rparr>"]
  have two: "emitConstructor extEx (classCtorEx\<lparr>cdThisHasReferenceSemantics := False\<rparr>) sgmEx =
     Inr (Some unitFn,
          sgmEx\<lparr>M := (M sgmEx)\<lparr>functions :=
            (functions (M sgmEx))(SILConstant (ValueDeclLoc 4) Plain \<mapsto> unitFn)\<rparr>\<rparr>)"
    using nv i e x s by simp
  from b one two show ?thesis by simp
qed

text \<open>
  Claim C5. \<^verbatim>\<open>preEmitFunction\<close> faults on a key that is in the table. Every
  emission policy whose key is in the table ends in that fault, whatever the body emitter
  and the verifier do, so before any write to the table; a class constructor whose
  Initializer key is in the table ends in a fault too. An emission that succeeds keeps
  every entry the table had.
\<close>

theorem no_duplicate_emission:
  "(hasFunction (M sgm) k \<longrightarrow> preEmitFunction ext sgm k = Inl AlreadyGenerated) \<and>
   (feBody fe \<noteq> None \<and> hasFunction (M sgm) (SILConstant_ofLoc l) \<longrightarrow>
      emitFunction ext l fe sgm = Inl AlreadyGenerated) \<and>
   (cdBody d \<noteq> None \<and> hasFunction (M sgm) (SILConstant_ofConstructor d) \<longrightarrow>
      emitConstructor ext d sgm = Inl AlreadyGenerated) \<and>
   (cdBody d \<noteq> None \<and> cdThisHasReferenceSemantics d \<and>
    hasFunction (M sgm) (SILConstant (ValueDeclLoc (cdId d)) Initializer) \<longrightarrow>
      (\<exists>e. emitConstructor ext d sgm = Inl e)) \<and>
   (hasFunction (M sgm) (SILConstant_ofLoc (CapturingExprLoc ce)) \<longrightarrow>
      emitClosure ext ce sgm = Inl AlreadyGenerated) \<and>
   (hasFunction (M sgm) (SILConstant (ValueDeclLoc cd) Destructor) \<longrightarrow>
      emitDestructor ext cd dd sgm = Inl AlreadyGenerated) \<and>
   (emitFunction ext l fe sgm = Inr (r, sgm') \<or> emitConstructor ext d sgm = Inr (r, sgm') \<or>
    emitClosure ext ce sgm = Inr (r, sgm') \<or> emitDestructor ext cd dd sgm = Inr (r, sgm') \<longrightarrow>
      functions (M sgm) \<subseteq>\<^sub>m functions (M sgm'))"
proof (intro conjI impI)
  show "preEmitFunction ext sgm k = Inl AlreadyGenerated" if "hasFunction (M sgm) k"
    using that by (rule preEmit_present)
  show "emitFunction ext l fe sgm = Inl AlreadyGenerated"
    if "feBody fe \<noteq> None \<and> hasFunction (M sgm) (SILConstant_ofLoc l)"
    using that by (simp add: emitFunction_def preEmit_present andThen_Inl)
  show "emitConstructor ext d sgm = Inl AlreadyGenerated"
    if "cdBody d \<noteq> None \<and> hasFunction (M sgm) (SILConstant_ofConstructor d)"
    using that by (simp add: emitConstructor_def preEmit_present andThen_Inl)
  show "\<exists>e. emitConstructor ext d sgm = Inl e"
    if "cdBody d \<noteq> None \<and> cdThisHasReferenceSemantics d \<and>
        hasFunction (M sgm) (SILConstant (ValueDeclLoc (cdId d)) Initializer)"
    using that by (simp add: emitConstructor_init_present)
  show "emitClosure ext ce sgm = Inl AlreadyGenerated"
    if "hasFunction (M sgm) (SILConstant_ofLoc (CapturingExprLoc ce))"
    using that by (simp add: emitClosure_def preEmit_present andThen_Inl)
  show "emitDestructor ext cd dd sgm = Inl AlreadyGenerated"
    if "hasFunction (M sgm) (SILConstant (ValueDeclLoc cd) Destructor)"
    using that by (simp add: emitDestructor_def preEmit_present andThen_Inl)
  show "functions (M sgm) \<subseteq>\<^sub>m functions (M sgm')"
    if "emitFunction ext l fe sgm = Inr (r, sgm') \<or> emitConstructor ext d sgm = Inr (r, sgm') \<or>
        emitClosure ext ce sgm = Inr (r, sgm') \<or> emitDestructor ext cd dd sgm = Inr (r, sgm')"
    using that
  proof (elim disjE)
    assume e: "emitFunction ext l fe sgm = Inr (r, sgm')"
    show ?thesis
    proof (cases "feBody fe = None")
      case True
      with e show ?thesis by (simp add: emitFunction_def)
    next
      case False
      with e show ?thesis
        by (auto simp: emitFunction_eq_Inr hasFunction_def map_le_fresh)
    qed
  next
    assume e: "emitConstructor ext d sgm = Inr (r, sgm')"
    show ?thesis
    proof (cases "cdBody d = None")
      case True
      with e show ?thesis by (simp add: emitConstructor_def)
    next
      case False
      show ?thesis
      proof (cases "cdThisHasReferenceSemantics d")
        case True
        with e False show ?thesis
          by (auto simp: emitConstructor_class_eq_Inr hasFunction_def map_le_fresh2)
      next
        case nv: False
        with e False show ?thesis
          by (auto simp: emitConstructor_value_eq_Inr hasFunction_def map_le_fresh)
      qed
    qed
  next
    assume "emitClosure ext ce sgm = Inr (r, sgm')"
    then show ?thesis by (auto simp: emitClosure_eq_Inr hasFunction_def map_le_fresh)
  next
    assume "emitDestructor ext cd dd sgm = Inr (r, sgm')"
    then show ?thesis by (auto simp: emitDestructor_eq_Inr hasFunction_def map_le_fresh)
  qed
qed

theorem no_duplicate_emission_witness:
  "feBody funcEx \<noteq> None \<and>
   hasFunction (M (sgmEx\<lparr>M := (M sgmEx)\<lparr>functions :=
       [SILConstant_ofLoc (ValueDeclLoc 2) \<mapsto> unitFn]\<rparr>\<rparr>)) (SILConstant_ofLoc (ValueDeclLoc 2)) \<and>
   emitFunction extEx (ValueDeclLoc 2) funcEx
     (sgmEx\<lparr>M := (M sgmEx)\<lparr>functions := [SILConstant_ofLoc (ValueDeclLoc 2) \<mapsto> unitFn]\<rparr>\<rparr>)
     = Inl AlreadyGenerated"
proof -
  have b: "feBody funcEx \<noteq> None" by (simp add: funcEx_def)
  have h: "hasFunction (M (sgmEx\<lparr>M := (M sgmEx)\<lparr>functions :=
       [SILConstant_ofLoc (ValueDeclLoc 2) \<mapsto> unitFn]\<rparr>\<rparr>)) (SILConstant_ofLoc (ValueDeclLoc 2))"
    by (simp add: hasFunction_def)
  from no_duplicate_emission [of "sgmEx\<lparr>M := (M sgmEx)\<lparr>functions :=
       [SILConstant_ofLoc (ValueDeclLoc 2) \<mapsto> unitFn]\<rparr>\<rparr>" _ extEx funcEx "ValueDeclLoc 2"] b h
  show ?thesis by blast
qed

section \<open>The type lowering coordinator at its scope exit\<close>

text \<open>
  Claim C6. At the scope exit of the coordinator of a class declaration, with or
  without a registered explicit destructor, the destruction succeeds exactly when the
  Destructor key of the class is absent from the table, the context with a void return
  gives a function and the function verifies; the table then gains that key and no other.
\<close>

theorem destructor_guarantee:
  assumes "theType sgt = ClassDecl c"
  shows
  "(SILGenType_dtor ext sgt sgm = Inr sgm' \<longleftrightarrow>
      (\<exists>f. \<not> hasFunction (M sgm) (SILConstant (ValueDeclLoc c) Destructor) \<and>
         SILGenFunction_scope True (SGF_emitDestructor ext c (explicitDestructor sgt))
           (Function_ctor (getConstantType ext (SILConstant (ValueDeclLoc c) Destructor)))
           = Inr f \<and>
         verify ext f \<and>
         sgm' = sgm\<lparr>M := (M sgm)\<lparr>functions :=
                  (functions (M sgm))(SILConstant (ValueDeclLoc c) Destructor \<mapsto> f)\<rparr>\<rparr>)) \<and>
   (SILGenType_dtor ext sgt sgm = Inr sgm' \<longrightarrow>
      dom (functions (M sgm')) - dom (functions (M sgm)) =
        {SILConstant (ValueDeclLoc c) Destructor} \<and>
      functions (M sgm) \<subseteq>\<^sub>m functions (M sgm'))"
proof -
  have iff: "SILGenType_dtor ext sgt sgm = Inr sgm' \<longleftrightarrow>
      (\<exists>f. \<not> hasFunction (M sgm) (SILConstant (ValueDeclLoc c) Destructor) \<and>
         SILGenFunction_scope True (SGF_emitDestructor ext c (explicitDestructor sgt))
           (Function_ctor (getConstantType ext (SILConstant (ValueDeclLoc c) Destructor)))
           = Inr f \<and>
         verify ext f \<and>
         sgm' = sgm\<lparr>M := (M sgm)\<lparr>functions :=
                  (functions (M sgm))(SILConstant (ValueDeclLoc c) Destructor \<mapsto> f)\<rparr>\<rparr>)"
    using assms
    by (auto simp: SILGenType_dtor_def andThen_eq_Inr emitDestructor_eq_Inr)
  have "dom (functions (M sgm')) - dom (functions (M sgm)) =
        {SILConstant (ValueDeclLoc c) Destructor} \<and>
      functions (M sgm) \<subseteq>\<^sub>m functions (M sgm')"
    if "SILGenType_dtor ext sgt sgm = Inr sgm'"
  proof -
    from that iff obtain f where
      a: "functions (M sgm) (SILConstant (ValueDeclLoc c) Destructor) = None"
      and s: "functions (M sgm') =
                (functions (M sgm))(SILConstant (ValueDeclLoc c) Destructor \<mapsto> f)"
      by (auto simp: hasFunction_def)
    show ?thesis unfolding s using a by (simp only: dom_diff_fresh map_le_fresh)
  qed
  with iff show ?thesis by blast
qed

theorem destructor_guarantee_witness:
  "theType (SILGenType_ctor (ClassDecl 6)) = ClassDecl 6 \<and>
   SILGenType_dtor extEx (SILGenType_ctor (ClassDecl 6)) sgmEx =
     Inr (sgmEx\<lparr>M := (M sgmEx)\<lparr>functions :=
            (functions (M sgmEx))(SILConstant (ValueDeclLoc 6) Destructor \<mapsto> unitFn)\<rparr>\<rparr>) \<and>
   theType \<lparr>theType = ClassDecl 6, explicitDestructor = Some 7\<rparr> = ClassDecl 6 \<and>
   SILGenType_dtor extEx \<lparr>theType = ClassDecl 6, explicitDestructor = Some 7\<rparr> sgmEx =
     Inr (sgmEx\<lparr>M := (M sgmEx)\<lparr>functions :=
            (functions (M sgmEx))(SILConstant (ValueDeclLoc 6) Destructor \<mapsto> unitFn)\<rparr>\<rparr>)"
proof -
  have t: "theType (SILGenType_ctor (ClassDecl 6)) = ClassDecl 6"
    "theType \<lparr>theType = ClassDecl 6, explicitDestructor = Some 7\<rparr> = ClassDecl 6"
    by (simp_all add: SILGenType_ctor_def)
  have e: "\<not> hasFunction (M sgmEx) k" for k
    by (simp add: sgmEx_def SILGenModule_ctor_def SILModule_ctor_def hasFunction_def)
  have x: "verify extEx f" "getConstantType extEx k = SILType 0"
    "SGF_emitDestructor extEx cd dd = (\<lambda>s. s)" for f k cd dd
    by (simp_all add: extEx_def)
  have s: "SILGenFunction_scope True (\<lambda>s. s) (Function_ctor (SILType 0)) = Inr unitFn"
    by (simp add: scope_empty_body unitFn_def)
  from destructor_guarantee [OF t(1), of extEx sgmEx
      "sgmEx\<lparr>M := (M sgmEx)\<lparr>functions :=
            (functions (M sgmEx))(SILConstant (ValueDeclLoc 6) Destructor \<mapsto> unitFn)\<rparr>\<rparr>"]
    destructor_guarantee [OF t(2), of extEx sgmEx
      "sgmEx\<lparr>M := (M sgmEx)\<lparr>functions :=
            (functions (M sgmEx))(SILConstant (ValueDeclLoc 6) Destructor \<mapsto> unitFn)\<rparr>\<rparr>"]
    t e x s
  show ?thesis by simp
qed

text \<open>
  Claim C9. At the scope exit of the coordinator of a declaration that is not a class,
  a registered explicit destructor is a fault; without one the module context is returned
  unchanged, so no destructor is emitted.
\<close>

theorem destructor_in_value_type_faults:
  assumes "\<forall>c. theType sgt \<noteq> ClassDecl c"
  shows "SILGenType_dtor ext sgt sgm =
           (if explicitDestructor sgt \<noteq> None then Inl DestructorInNonClass else Inr sgm)"
  using assms by (cases "theType sgt") (simp_all add: SILGenType_dtor_def)

theorem destructor_in_value_type_faults_witness:
  "(\<forall>c. theType \<lparr>theType = StructDecl 6, explicitDestructor = Some 7\<rparr> \<noteq> ClassDecl c) \<and>
   SILGenType_dtor extEx \<lparr>theType = StructDecl 6, explicitDestructor = Some 7\<rparr> sgmEx =
     Inl DestructorInNonClass \<and>
   (\<forall>c. theType (SILGenType_ctor (StructDecl 6)) \<noteq> ClassDecl c) \<and>
   SILGenType_dtor extEx (SILGenType_ctor (StructDecl 6)) sgmEx = Inr sgmEx"
proof -
  have a: "\<forall>c. theType \<lparr>theType = StructDecl 6, explicitDestructor = Some 7\<rparr> \<noteq> ClassDecl c"
    by simp
  have b: "\<forall>c. theType (SILGenType_ctor (StructDecl 6)) \<noteq> ClassDecl c"
    by (simp add: SILGenType_ctor_def)
  from destructor_in_value_type_faults [OF a, of extEx sgmEx] destructor_in_value_type_faults [OF b, of extEx sgmEx] a b
  show ?thesis by (simp add: SILGenType_ctor_def)
qed

section \<open>The entry point and the top-level function\<close>

lemma keepsTopLevel_refl: "keepsTopLevel s s"
  by (simp add: keepsTopLevel_def split: option.splits)

lemma keepsTopLevel_trans:
  "keepsTopLevel s1 s2 \<Longrightarrow> keepsTopLevel s2 s3 \<Longrightarrow> keepsTopLevel s1 s3"
  by (auto simp: keepsTopLevel_def split: option.splits)

lemma keepsTopLevel_functions:
  "keepsTopLevel s (s\<lparr>M := (M s)\<lparr>functions := t\<rparr>\<rparr>)"
  by (simp add: keepsTopLevel_def split: option.splits)

lemma emitFunction_keeps:
  assumes "emitFunction ext l fe s = Inr (r, s')"
  shows "keepsTopLevel s s'"
proof (cases "feBody fe = None")
  case True
  with assms show ?thesis by (simp add: emitFunction_def keepsTopLevel_refl)
next
  case False
  with assms show ?thesis
    by (auto simp: emitFunction_eq_Inr keepsTopLevel_functions)
qed

lemma visit_keeps:
  assumes other: "\<forall>n s s'. visitOtherDecl ext n s = Inr s' \<longrightarrow> keepsTopLevel s s'"
    and v: "visit ext d s = Inr s'"
  shows "keepsTopLevel s s'"
proof (cases d)
  case (FuncDeclNode fd)
  with v show ?thesis
    by (auto simp: visit_def visitFuncDecl_def andThen_eq_Inr dest: emitFunction_keeps)
next
  case (PatternBindingDeclNode pd)
  with v show ?thesis
    by (simp add: visit_def visitPatternBindingDecl_def keepsTopLevel_refl)
next
  case (OtherDeclNode n)
  with v other show ?thesis by (simp add: visit_def)
qed

lemma visitAll_keeps:
  assumes other: "\<forall>n s s'. visitOtherDecl ext n s = Inr s' \<longrightarrow> keepsTopLevel s s'"
  shows "visitAll ext ds s = Inr s' \<Longrightarrow> keepsTopLevel s s'"
proof (induction ds arbitrary: s)
  case Nil
  then show ?case by (simp add: keepsTopLevel_refl)
next
  case (Cons d ds)
  from Cons.prems obtain s1 where v: "visit ext d s = Inr s1"
    and rest: "visitAll ext ds s1 = Inr s'"
    by (auto simp: andThen_eq_Inr)
  from visit_keeps [OF other v] Cons.IH [OF rest] show ?case
    by (rule keepsTopLevel_trans)
qed

text \<open>
  Claim C7. Let the visitors that are not in this file keep the top level. The module
  that \<^verbatim>\<open>constructSIL\<close> returns has a top-level function exactly for the kinds Main
  and Repl. The top-level context is created with a void return over the new top-level
  function; when the module has a top-level function, it is what the epilogue of that
  context returned, the context still has a void return, and if its insertion point is a
  valid block of the function, that block ends with an empty tuple, the cleanups and a
  return of the tuple.
\<close>

theorem constructSIL_toplevel:
  assumes other: "\<forall>n s s'. visitOtherDecl ext n s = Inr s' \<longrightarrow> keepsTopLevel s s'"
    and res: "constructSIL ext tu verbose = Inr m"
  shows
  "(toplevel m \<noteq> None) = (tuKind tu = Main \<or> tuKind tu = Repl) \<and>
   TopLevelSGF (SILGenModule_ctor
       (SILModule_ctor (tuASTContext tu) (hasTopLevelFor (tuKind tu))) verbose) =
     (if tuKind tu = Library then None
      else Some (SILGenFunction_ctor (Function_ctor (topLevelFnType (tuASTContext tu))) True)) \<and>
   (\<exists>sgm.
      visitAll ext (tuDecls tu)
        (SILGenModule_ctor (SILModule_ctor (tuASTContext tu) (hasTopLevelFor (tuKind tu))) verbose)
        = Inr sgm \<and>
      (tuKind tu \<noteq> Library \<longrightarrow>
         (\<exists>c f. TopLevelSGF sgm = Some c \<and> hasVoidReturn c \<and>
            SILGenFunction_dtor c = Inr f \<and> toplevel m = Some f \<and>
            (\<forall>i. B c = Some i \<and> i < length (blocks (F c)) \<longrightarrow>
               blocks f ! i =
                 blocks (F c) ! i @ [TupleInst []] @ map CleanupCode (rev (Cleanups c)) @
                 [ReturnInst (InstRef i (length (blocks (F c) ! i)))]))))"
proof -
  let ?s0 = "SILGenModule_ctor
       (SILModule_ctor (tuASTContext tu) (hasTopLevelFor (tuKind tu))) verbose"
  have init: "TopLevelSGF ?s0 =
     (if tuKind tu = Library then None
      else Some (SILGenFunction_ctor (Function_ctor (topLevelFnType (tuASTContext tu))) True))"
    by (cases "tuKind tu")
      (simp_all add: SILGenModule_ctor_def SILModule_ctor_def hasTopLevelFor_def)
  have init_top: "(toplevel (M ?s0) = None) = (tuKind tu = Library)"
    by (cases "tuKind tu")
      (simp_all add: SILGenModule_ctor_def SILModule_ctor_def hasTopLevelFor_def)
  from res obtain sgm where v: "visitAll ext (tuDecls tu) ?s0 = Inr sgm"
    and d: "SILGenModule_dtor sgm = Inr m"
    by (auto simp: constructSIL_def Let_def andThen_eq_Inr)
  have keep: "keepsTopLevel ?s0 sgm" by (rule visitAll_keeps [OF other v])
  show ?thesis
  proof (cases "tuKind tu = Library")
    case True
    with keep init init_top have "TopLevelSGF sgm = None" "toplevel (M sgm) = None"
      by (simp_all add: keepsTopLevel_def)
    with d have "toplevel m = None" by (auto simp: SILGenModule_dtor_def)
    with True init v show ?thesis by auto
  next
    case False
    with keep init obtain c where c: "TopLevelSGF sgm = Some c" and hv: "hasVoidReturn c"
      by (auto simp: keepsTopLevel_def ctor_eq split: option.splits)
    from d c obtain f where f: "SILGenFunction_dtor c = Inr f" and m: "toplevel m = Some f"
      by (auto simp: SILGenModule_dtor_def andThen_eq_Inr)
    have blk: "blocks f ! i =
                 blocks (F c) ! i @ [TupleInst []] @ map CleanupCode (rev (Cleanups c)) @
                 [ReturnInst (InstRef i (length (blocks (F c) ! i)))]"
      if "B c = Some i \<and> i < length (blocks (F c))" for i
    proof (cases "epilogBB c")
      case None
      with that hv f show ?thesis by (auto simp: dtor_return)
    next
      case (Some e)
      with that hv f show ?thesis by (auto simp: dtor_assert)
    qed
    from False have k: "tuKind tu = Main \<or> tuKind tu = Repl" by (cases "tuKind tu") simp_all
    from k m init False v c hv f blk show ?thesis by auto
  qed
qed

theorem constructSIL_toplevel_witness:
  "constructSIL extEx tuEx False =
     Inr \<lparr>toplevel = Some \<lparr>fnType = SILType 9,
                            blocks = [[TupleInst [], ReturnInst (InstRef 0 0)]]\<rparr>,
          functions = Map.empty\<rparr> \<and>
   toplevel \<lparr>toplevel = Some \<lparr>fnType = SILType 9,
                               blocks = [[TupleInst [], ReturnInst (InstRef 0 0)]]\<rparr>,
             functions = (Map.empty :: SILConstant \<rightharpoonup> Function)\<rparr> \<noteq> None \<and>
   constructSIL extEx (tuEx\<lparr>tuKind := Library\<rparr>) False =
     Inr \<lparr>toplevel = None, functions = Map.empty\<rparr>"
proof -
  have other: "\<forall>n s s'. visitOtherDecl extEx n s = Inr s' \<longrightarrow> keepsTopLevel s s'"
    by (simp add: extEx_def keepsTopLevel_refl)
  have x: "visitOtherDecl extEx n s = Inr s" for n s by (simp add: extEx_def)
  have p: "feBody protoEx = None" by (simp add: protoEx_def)
  have vis: "visitAll extEx (tuDecls tuEx) s = Inr s" for s
    by (simp add: tuEx_def visit_def visitFuncDecl_def emitFunction_def
        visitPatternBindingDecl_def andThen_Inr p x)
  have res: "constructSIL extEx tuEx False =
     Inr \<lparr>toplevel = Some \<lparr>fnType = SILType 9,
                            blocks = [[TupleInst [], ReturnInst (InstRef 0 0)]]\<rparr>,
          functions = Map.empty\<rparr>"
    unfolding constructSIL_def Let_def vis andThen_Inr
    by (simp add: tuEx_def ctxEx_def hasTopLevelFor_def SILModule_ctor_def SILGenModule_ctor_def
        SILGenModule_dtor_def andThen_Inr Function_ctor_def ctor_eq dtor_return)
  have vis2: "visitAll extEx (tuDecls (tuEx\<lparr>tuKind := Library\<rparr>)) s = Inr s" for s
    using vis by simp
  have lib: "constructSIL extEx (tuEx\<lparr>tuKind := Library\<rparr>) False =
     Inr \<lparr>toplevel = None, functions = Map.empty\<rparr>"
    unfolding constructSIL_def Let_def vis2 andThen_Inr
    by (simp add: hasTopLevelFor_def SILModule_ctor_def SILGenModule_ctor_def
        SILGenModule_dtor_def)
  from constructSIL_toplevel [OF other res] have "toplevel \<lparr>toplevel = Some \<lparr>fnType = SILType 9,
                               blocks = [[TupleInst [], ReturnInst (InstRef 0 0)]]\<rparr>,
             functions = (Map.empty :: SILConstant \<rightharpoonup> Function)\<rparr> \<noteq> None"
    by (simp add: tuEx_def)
  with res lib show ?thesis by simp
qed

end
